theory Spec2Isabelle
  imports Main
begin

section \<open>Python values and the helpers of core/utils.py\<close>

text \<open>
  Strings are lists of characters with code points below 256.  Python integers are
  unbounded, hence \<open>int\<close>.  Floats are not modelled.  An integer value is taken to have
  at most 4300 decimal digits, the most that Python converts from or to text by default:
  the integers of the program come from typed text, from spreadsheet cells and from the
  database.
\<close>

record date =
  d_year :: int
  d_month :: int
  d_day :: int

record datetime = date +
  d_hour :: int
  d_minute :: int
  d_second :: int

text \<open>The dynamically typed values that reach the modelled functions.\<close>

datatype pyval =
    PNone
  | PBool bool
  | PInt int
  | PStr string
  | PDate date
  | PDatetime datetime

text \<open>What \<open>str.isspace\<close> accepts among the code points below 256; \<open>str.strip()\<close>
  removes exactly these characters from both ends.\<close>

definition is_space :: "char \<Rightarrow> bool" where
  "is_space c = ((of_char c :: nat) \<in> {9, 10, 11, 12, 13, 28, 29, 30, 31, 32, 133, 160})"

definition py_strip :: "string \<Rightarrow> string" where
  "py_strip s = rev (dropWhile is_space (rev (dropWhile is_space s)))"

text \<open>\<open>str.lower()\<close> on code points below 256: the ASCII capitals and the Latin-1
  capitals other than the multiplication sign.\<close>

definition lower_char :: "char \<Rightarrow> char" where
  "lower_char c =
     (let n = (of_char c :: nat)
      in if (65 \<le> n \<and> n \<le> 90) \<or> (192 \<le> n \<and> n \<le> 222 \<and> n \<noteq> 215)
         then char_of (n + 32) else c)"

definition py_lower :: "string \<Rightarrow> string" where
  "py_lower s = map lower_char s"

definition is_digit :: "char \<Rightarrow> bool" where
  "is_digit c = (48 \<le> (of_char c :: nat) \<and> (of_char c :: nat) \<le> 57)"

definition digit_val :: "char \<Rightarrow> nat" where
  "digit_val c = of_char c - 48"

definition digit_char :: "nat \<Rightarrow> char" where
  "digit_char n = char_of (48 + n)"

fun str_of_nat :: "nat \<Rightarrow> string" where
  "str_of_nat n =
     (if n < 10 then [digit_char n] else str_of_nat (n div 10) @ [digit_char (n mod 10)])"

declare str_of_nat.simps [simp del]

definition str_of_int :: "int \<Rightarrow> string" where
  "str_of_int i = (if i < 0 then CHR ''-'' # str_of_nat (nat (- i)) else str_of_nat (nat i))"

text \<open>Zero-padded decimal of a fixed width, as \<open>%04d\<close> and \<open>%02d\<close> print it.\<close>

definition zpad :: "nat \<Rightarrow> int \<Rightarrow> string" where
  "zpad w i = (let s = str_of_int i in replicate (w - length s) CHR ''0'' @ s)"

definition str_of_date :: "date \<Rightarrow> string" where
  "str_of_date d =
     zpad 4 (d_year d) @ ''-'' @ zpad 2 (d_month d) @ ''-'' @ zpad 2 (d_day d)"

definition str_of_datetime :: "datetime \<Rightarrow> string" where
  "str_of_datetime t =
     zpad 4 (d_year t) @ ''-'' @ zpad 2 (d_month t) @ ''-'' @ zpad 2 (d_day t) @ '' '' @
     zpad 2 (d_hour t) @ '':'' @ zpad 2 (d_minute t) @ '':'' @ zpad 2 (d_second t)"

text \<open>Python's \<open>str(value)\<close>.\<close>

fun py_str :: "pyval \<Rightarrow> string" where
  "py_str PNone = ''None''"
| "py_str (PBool b) = (if b then ''True'' else ''False'')"
| "py_str (PInt i) = str_of_int i"
| "py_str (PStr s) = s"
| "py_str (PDate d) = str_of_date d"
| "py_str (PDatetime t) = str_of_datetime t"

text \<open>Python's truth value of an object.\<close>

fun truthy :: "pyval \<Rightarrow> bool" where
  "truthy PNone = False"
| "truthy (PBool b) = b"
| "truthy (PInt i) = (i \<noteq> 0)"
| "truthy (PStr s) = (s \<noteq> [])"
| "truthy (PDate d) = True"
| "truthy (PDatetime t) = True"

text \<open>\<open>a or b\<close>.\<close>

definition py_or :: "pyval \<Rightarrow> pyval \<Rightarrow> pyval" where
  "py_or a b = (if truthy a then a else b)"

text \<open>
  \<open>int(s)\<close> for a string: surrounding whitespace is dropped, then an optional sign and
  decimal digits, single underscores allowed between digits.  \<open>None\<close> stands for the
  \<open>ValueError\<close> raised otherwise.

  The whitespace that \<open>int()\<close> drops is not that of \<open>str.strip()\<close>: it is the ASCII
  whitespace (9 to 13 and 32), and of the other code points below 256 the two Unicode
  spaces 133 and 160; the separators 28 to 31 are not dropped, and a string that has one
  is rejected.  A string with more decimal digits than \<open>sys.get_int_max_str_digits()\<close>,
  4300 by default, is rejected as well, whatever its value.
\<close>

definition is_int_space :: "char \<Rightarrow> bool" where
  "is_int_space c = ((of_char c :: nat) \<in> {9, 10, 11, 12, 13, 32, 133, 160})"

definition int_strip :: "string \<Rightarrow> string" where
  "int_strip s = rev (dropWhile is_int_space (rev (dropWhile is_int_space s)))"

definition int_max_str_digits :: nat where
  "int_max_str_digits = 4300"

fun digs :: "nat \<Rightarrow> string \<Rightarrow> nat option" where
  "digs acc [] = Some acc"
| "digs acc (c # cs) =
     (if is_digit c then digs (acc * 10 + digit_val c) cs
      else if c = CHR ''_'' then
        (case cs of
           [] \<Rightarrow> None
         | d # ds \<Rightarrow> if is_digit d then digs (acc * 10 + digit_val d) ds else None)
      else None)"

definition parse_unsigned :: "string \<Rightarrow> nat option" where
  "parse_unsigned s =
     (case s of [] \<Rightarrow> None | c # cs \<Rightarrow> if is_digit c then digs (digit_val c) cs else None)"

definition int_of_str :: "string \<Rightarrow> int option" where
  "int_of_str s =
     (if int_max_str_digits < length (filter is_digit s) then None
      else
        (case int_strip s of
           [] \<Rightarrow> None
         | c # cs \<Rightarrow>
             if c = CHR ''-'' then map_option (\<lambda>n. - int n) (parse_unsigned cs)
             else if c = CHR ''+'' then map_option int (parse_unsigned cs)
             else map_option int (parse_unsigned (c # cs))))"

text \<open>\<open>int(value)\<close>; \<open>None\<close> stands for \<open>ValueError\<close> or \<open>TypeError\<close>.\<close>

fun py_int :: "pyval \<Rightarrow> int option" where
  "py_int PNone = None"
| "py_int (PBool b) = Some (if b then 1 else 0)"
| "py_int (PInt i) = Some i"
| "py_int (PStr s) = int_of_str s"
| "py_int (PDate d) = None"
| "py_int (PDatetime t) = None"

text \<open>core/utils.py: \<open>safe_str\<close> and \<open>safe_int\<close>.\<close>

definition safe_str :: "pyval \<Rightarrow> string" where
  "safe_str v = (if v = PNone then [] else py_strip (py_str v))"

definition safe_int :: "pyval \<Rightarrow> int \<Rightarrow> int" where
  "safe_int v dflt = (case py_int v of Some i \<Rightarrow> i | None \<Rightarrow> dflt)"

text \<open>Keyword arguments and dictionaries with string keys; \<open>dict.get(key)\<close>.\<close>

type_synonym kwargs = "string \<rightharpoonup> pyval"

definition dict_get :: "kwargs \<Rightarrow> string \<Rightarrow> pyval" where
  "dict_get d k = (case d k of None \<Rightarrow> PNone | Some v \<Rightarrow> v)"

section \<open>The SQLite database\<close>

text \<open>
  One record per table row; a table is the list of its rows in rowid order.  Every model
  function opens the same database file, so the database is one state that the functions
  take and return.  The columns that the application always writes through \<open>safe_str\<close>
  and \<open>safe_int\<close> are typed \<open>string\<close> and \<open>int\<close>; the inventory quantity keeps SQL's
  \<open>NULL\<close>, which the code reads with \<open>row[0] or 0\<close>.
\<close>

record user_row =
  u_id :: int
  u_username :: string
  u_email :: string
  u_password_hash :: string

record inventory_row =
  inv_id :: int
  inv_part_number :: string
  inv_quantity :: "int option"
  inv_part_location :: string
  inv_model :: string
  inv_part_description :: string
  inv_quarterly_inventory_verification_date :: string
  inv_category_id :: string
  inv_notes :: string
  inv_user :: string

text \<open>
  The class \<open>ServiceActivity\<close>; a row of table \<open>service_activity\<close> is such an object whose
  \<open>id\<close> is set.  The \<open>id\<close> of an object is \<open>None\<close>, the constructor's default, or the
  rowid that \<open>_from_row\<close> read.
\<close>

record ServiceActivity =
  sa_id :: "int option"
  sa_area :: string
  sa_customer :: string
  sa_serial_number :: string
  sa_meter :: string
  sa_malfunction :: string
  sa_arrival_date :: string
  sa_arrival_time :: string
  sa_remedial_action :: string
  sa_quantity :: int
  sa_part_replaced :: string
  sa_departure_date :: string
  sa_departure_time :: string
  sa_call_duration :: string
  sa_technician :: string
  sa_comments :: string
  sa_user :: string

record db =
  users :: "user_row list"
  users_seq :: int
  service_activity :: "ServiceActivity list"
  service_activity_seq :: int
  inventory_items :: "inventory_row list"
  inventory_items_seq :: int

text \<open>
  SQLite stores an INTEGER in 64 bits.  The \<open>sqlite3\<close> module raises \<open>OverflowError\<close>
  when a Python int outside that range is bound to a parameter of a statement.
\<close>

definition in_int64 :: "int \<Rightarrow> bool" where
  "in_int64 i = (- (2 ^ 63) \<le> i \<and> i < 2 ^ 63)"

datatype py_error = OverflowError | KeyError string

text \<open>
  How a call that writes to the database ends: it returns, with the database it leaves;
  or it raises before a commit, and the database is as it was; or it returns after an
  \<open>UPDATE\<close> whose integer arithmetic left the 64-bit range.  SQLite then stores a
  floating-point value (a REAL) in the row.  Floating point is not modelled, so that
  database is not described further.
\<close>

datatype outcome = Returns db | Raises py_error | Stores_REAL

text \<open>\<open>AUTOINCREMENT\<close>: one more than the largest rowid ever used.\<close>

definition next_rowid :: "int \<Rightarrow> int list \<Rightarrow> int" where
  "next_rowid seq ids = fold max ids seq + 1"

text \<open>\<open>WHERE part_number=? AND user=?\<close>\<close>

definition inv_match :: "string \<Rightarrow> string \<Rightarrow> inventory_row \<Rightarrow> bool" where
  "inv_match part usr r = (inv_part_number r = part \<and> inv_user r = usr)"

text \<open>\<open>UPDATE inventory_items SET quantity=? WHERE part_number=? AND user=?\<close>\<close>

definition inv_set_quantity ::
  "int \<Rightarrow> string \<Rightarrow> string \<Rightarrow> inventory_row list \<Rightarrow> inventory_row list" where
  "inv_set_quantity q part usr rows =
     map (\<lambda>r. if inv_match part usr r then r\<lparr>inv_quantity := Some q\<rparr> else r) rows"

text \<open>
  \<open>UPDATE inventory_items SET quantity = quantity + ? WHERE part_number=? AND user=?\<close>;
  arithmetic on \<open>NULL\<close> gives \<open>NULL\<close>.  Where the sum of a matching row leaves the 64-bit
  range, SQLite computes it in floating point and stores a REAL: the result is \<open>None\<close>.
\<close>

definition inv_add ::
  "int \<Rightarrow> string \<Rightarrow> string \<Rightarrow> inventory_row list \<Rightarrow> inventory_row list option" where
  "inv_add n part usr rows =
     (if list_ex (\<lambda>r. inv_match part usr r \<and>
                      (case inv_quantity r of None \<Rightarrow> False | Some q \<Rightarrow> \<not> in_int64 (q + n))) rows
      then None
      else Some (map (\<lambda>r. if inv_match part usr r
                          then r\<lparr>inv_quantity := map_option (\<lambda>q. q + n) (inv_quantity r)\<rparr>
                          else r) rows))"

text \<open>
  \<open>UPDATE inventory_items SET quantity = MAX(quantity - ?, 0) WHERE part_number=? AND
  user=?\<close>; the scalar \<open>MAX\<close> of a \<open>NULL\<close> is \<open>NULL\<close>.  A difference above the 64-bit
  range becomes a REAL, which \<open>MAX\<close> returns: the result is \<open>None\<close>.  A difference below
  the range becomes a negative REAL, and \<open>MAX\<close> returns the integer 0.
\<close>

definition inv_sub_clamped ::
  "int \<Rightarrow> string \<Rightarrow> string \<Rightarrow> inventory_row list \<Rightarrow> inventory_row list option" where
  "inv_sub_clamped n part usr rows =
     (if list_ex (\<lambda>r. inv_match part usr r \<and>
                      (case inv_quantity r of None \<Rightarrow> False | Some q \<Rightarrow> 2 ^ 63 \<le> q - n)) rows
      then None
      else Some (map (\<lambda>r. if inv_match part usr r
                          then r\<lparr>inv_quantity := map_option (\<lambda>q. max (q - n) 0) (inv_quantity r)\<rparr>
                          else r) rows))"

section \<open>core/models/service_activity_model.py\<close>

text \<open>\<open>ServiceActivity._from_row\<close>: the constructor passes every column through
  \<open>safe_str\<close> or \<open>safe_int\<close>.\<close>

definition from_row :: "ServiceActivity \<Rightarrow> ServiceActivity" where
  "from_row row =
     \<lparr> sa_id = sa_id row,
       sa_area = safe_str (PStr (sa_area row)),
       sa_customer = safe_str (PStr (sa_customer row)),
       sa_serial_number = safe_str (PStr (sa_serial_number row)),
       sa_meter = safe_str (PStr (sa_meter row)),
       sa_malfunction = safe_str (PStr (sa_malfunction row)),
       sa_arrival_date = safe_str (PStr (sa_arrival_date row)),
       sa_arrival_time = safe_str (PStr (sa_arrival_time row)),
       sa_remedial_action = safe_str (PStr (sa_remedial_action row)),
       sa_quantity = safe_int (PInt (sa_quantity row)) 0,
       sa_part_replaced = safe_str (PStr (sa_part_replaced row)),
       sa_departure_date = safe_str (PStr (sa_departure_date row)),
       sa_departure_time = safe_str (PStr (sa_departure_time row)),
       sa_call_duration = safe_str (PStr (sa_call_duration row)),
       sa_technician = safe_str (PStr (sa_technician row)),
       sa_comments = safe_str (PStr (sa_comments row)),
       sa_user = safe_str (py_or (PStr (sa_user row)) (PStr ''default_user'')) \<rparr>"

text \<open>\<open>SELECT ... FROM service_activity WHERE id=?\<close> followed by \<open>fetchone()\<close>; a \<open>None\<close>
  bound to the parameter matches no row.\<close>

definition select_by_id :: "int option \<Rightarrow> db \<Rightarrow> ServiceActivity option" where
  "select_by_id i d =
     (case i of
        None \<Rightarrow> None
      | Some n \<Rightarrow> find (\<lambda>r. sa_id r = Some n) (service_activity d))"

definition get_by_id :: "int option \<Rightarrow> db \<Rightarrow> ServiceActivity option" where
  "get_by_id i d = map_option from_row (select_by_id i d)"

text \<open>
  \<open>ServiceActivity.create(**data)\<close>.  The \<open>INSERT\<close> binds \<open>quantity\<close>; it stands before the
  \<open>try\<close> block and before the commit, so an \<open>OverflowError\<close> there leaves the method with
  nothing written.  In the \<open>try\<close> block \<open>new_qty\<close> lies between 0 and the quantity read
  from the table, and binds.
\<close>

definition ServiceActivity_create :: "kwargs \<Rightarrow> db \<Rightarrow> py_error + db" where
  "ServiceActivity_create data d =
     (let area = safe_str (dict_get data ''area'');
          customer = safe_str (dict_get data ''customer'');
          serial_number = safe_str (dict_get data ''serial_number'');
          meter = safe_str (dict_get data ''meter'');
          malfunction = safe_str (dict_get data ''malfunction'');
          arrival_date = safe_str (dict_get data ''arrival_date'');
          arrival_time = safe_str (dict_get data ''arrival_time'');
          remedial_action = safe_str (dict_get data ''remedial_action'');
          quantity = safe_int (dict_get data ''quantity'') 0;
          part_replaced = safe_str (dict_get data ''part_replaced'');
          departure_date = safe_str (dict_get data ''departure_date'');
          departure_time = safe_str (dict_get data ''departure_time'');
          call_duration = safe_str (dict_get data ''call_duration'');
          technician = safe_str (dict_get data ''technician'');
          comments = safe_str (dict_get data ''comments'');
          usr = safe_str (py_or (dict_get data ''user'') (PStr ''default_user''));
          new_id = next_rowid (service_activity_seq d)
                     (map (\<lambda>r. case sa_id r of None \<Rightarrow> 0 | Some n \<Rightarrow> n) (service_activity d));
          row = \<lparr> sa_id = Some new_id, sa_area = area, sa_customer = customer,
                  sa_serial_number = serial_number, sa_meter = meter,
                  sa_malfunction = malfunction, sa_arrival_date = arrival_date,
                  sa_arrival_time = arrival_time, sa_remedial_action = remedial_action,
                  sa_quantity = quantity, sa_part_replaced = part_replaced,
                  sa_departure_date = departure_date, sa_departure_time = departure_time,
                  sa_call_duration = call_duration, sa_technician = technician,
                  sa_comments = comments, sa_user = usr \<rparr>;
          d1 = d\<lparr>service_activity := service_activity d @ [row],
                 service_activity_seq := new_id\<rparr>
      in if \<not> in_int64 quantity then Inl OverflowError
         else if part_replaced \<noteq> [] then
           (let use_qty = (if quantity \<noteq> 0 \<and> quantity > 0 then quantity else 1)
            in case find (inv_match part_replaced usr) (inventory_items d1) of
                 None \<Rightarrow> Inr d1
               | Some r \<Rightarrow>
                   (let current_qty = (case inv_quantity r of None \<Rightarrow> 0 | Some q \<Rightarrow> q);
                        new_qty = max 0 (current_qty - use_qty)
                    in Inr (d1\<lparr>inventory_items :=
                                 inv_set_quantity new_qty part_replaced usr (inventory_items d1)\<rparr>)))
         else Inr d1)"

text \<open>
  The four-way branch of \<open>ServiceActivity.update\<close> that adjusts the inventory, inside its
  \<open>try\<close>.  \<open>old_qty\<close> was read from the table and \<open>new_qty\<close> has been bound by the
  \<open>UPDATE\<close> of the activity, so both bind; \<open>diff\<close> and \<open>-diff\<close> may not, and the
  \<open>OverflowError\<close> is then caught with the inventory as it was.  The result is \<open>None\<close>
  where a statement stores a REAL.
\<close>

definition adjust_inventory ::
  "string \<Rightarrow> int \<Rightarrow> string \<Rightarrow> int \<Rightarrow> string \<Rightarrow> inventory_row list
     \<Rightarrow> inventory_row list option" where
  "adjust_inventory old_part old_qty new_part new_qty usr rows =
     (if old_part \<noteq> [] \<and> old_part \<noteq> new_part then
        (case inv_add old_qty old_part usr rows of
           None \<Rightarrow> None
         | Some rows1 \<Rightarrow>
             if new_part \<noteq> [] then inv_sub_clamped new_qty new_part usr rows1 else Some rows1)
      else if old_part = new_part \<and> new_part \<noteq> [] then
        (let diff = new_qty - old_qty
         in if diff > 0 then
              (if in_int64 diff then inv_sub_clamped diff new_part usr rows else Some rows)
            else if diff < 0 then
              (if in_int64 (- diff) then inv_add (- diff) new_part usr rows else Some rows)
            else Some rows)
      else if old_part \<noteq> [] \<and> new_part = [] then inv_add old_qty old_part usr rows
      else if old_part = [] \<and> new_part \<noteq> [] then inv_sub_clamped new_qty new_part usr rows
      else Some rows)"

text \<open>
  \<open>ServiceActivity.update(self)\<close>.  The \<open>UPDATE\<close> of the activity binds \<open>new_qty\<close>
  outside the \<open>try\<close>: an \<open>OverflowError\<close> there leaves the method before the commit.
\<close>

definition ServiceActivity_update :: "ServiceActivity \<Rightarrow> db \<Rightarrow> outcome" where
  "ServiceActivity_update self d =
     (case select_by_id (sa_id self) d of
        None \<Rightarrow> Returns d
      | Some old_row \<Rightarrow>
          (let old_part = safe_str (PStr (sa_part_replaced old_row));
               old_qty = safe_int (PInt (sa_quantity old_row)) 0;
               old_user = safe_str (py_or (PStr (sa_user old_row)) (PStr ''default_user''));
               new_part = safe_str (PStr (sa_part_replaced self));
               new_qty = safe_int (PInt (sa_quantity self)) 0;
               usr = safe_str (PStr (sa_user self));
               row = \<lparr> sa_id = sa_id self,
                       sa_area = safe_str (PStr (sa_area self)),
                       sa_customer = safe_str (PStr (sa_customer self)),
                       sa_serial_number = safe_str (PStr (sa_serial_number self)),
                       sa_meter = safe_str (PStr (sa_meter self)),
                       sa_malfunction = safe_str (PStr (sa_malfunction self)),
                       sa_arrival_date = safe_str (PStr (sa_arrival_date self)),
                       sa_arrival_time = safe_str (PStr (sa_arrival_time self)),
                       sa_remedial_action = safe_str (PStr (sa_remedial_action self)),
                       sa_quantity = new_qty,
                       sa_part_replaced = new_part,
                       sa_departure_date = safe_str (PStr (sa_departure_date self)),
                       sa_departure_time = safe_str (PStr (sa_departure_time self)),
                       sa_call_duration = safe_str (PStr (sa_call_duration self)),
                       sa_technician = safe_str (PStr (sa_technician self)),
                       sa_comments = safe_str (PStr (sa_comments self)),
                       sa_user = usr \<rparr>
           in if \<not> in_int64 new_qty then Raises OverflowError
              else
                (case adjust_inventory old_part old_qty new_part new_qty usr
                        (inventory_items d) of
                   None \<Rightarrow> Stores_REAL
                 | Some rows \<Rightarrow>
                     Returns (d\<lparr>service_activity :=
                                  map (\<lambda>r. if sa_id r = sa_id self then row else r)
                                    (service_activity d),
                                inventory_items := rows\<rparr>))))"

text \<open>\<open>ServiceActivity.delete(self)\<close>\<close>

definition ServiceActivity_delete :: "ServiceActivity \<Rightarrow> db \<Rightarrow> db" where
  "ServiceActivity_delete self d =
     (case sa_id self of
        None \<Rightarrow> d
      | Some n \<Rightarrow> d\<lparr>service_activity := filter (\<lambda>r. sa_id r \<noteq> Some n) (service_activity d)\<rparr>)"

section \<open>core/logic.py: authentication\<close>

text \<open>
  The exceptions that can come out of the argon2 library: the three that
  \<open>verify_password_argon2\<close> names, and others.  \<open>VerifyMismatchError\<close> is a subclass of
  \<open>VerificationError\<close>; the handler lists both.  \<open>UnicodeEncodeError\<close> is what
  \<open>PasswordHasher.verify\<close> raises for a hash given as a string with a character outside
  ASCII: it encodes the hash before it looks at it.
\<close>

datatype exn =
  VerifyMismatchError | VerificationError | InvalidHash | UnicodeEncodeError | OtherException

text \<open>
  The module-level \<open>PasswordHasher\<close> object \<open>ph\<close>.  The library is not part of the
  repository, so its three methods are parameters: each returns a value (\<open>Inr\<close>) or
  raises (\<open>Inl\<close>).
\<close>

record PasswordHasher =
  ph_hash :: "string \<Rightarrow> exn + string"
  ph_verify :: "string \<Rightarrow> string \<Rightarrow> exn + bool"
  ph_check_needs_rehash :: "string \<Rightarrow> exn + bool"

definition hash_password :: "PasswordHasher \<Rightarrow> string \<Rightarrow> exn + string" where
  "hash_password ph password = ph_hash ph password"

definition verify_password_argon2 :: "PasswordHasher \<Rightarrow> string \<Rightarrow> string \<Rightarrow> exn + bool" where
  "verify_password_argon2 ph stored_hash password =
     (case ph_verify ph stored_hash password of
        Inr b \<Rightarrow> Inr b
      | Inl e \<Rightarrow>
          if e = VerifyMismatchError \<or> e = VerificationError \<or> e = InvalidHash
          then Inr False else Inl e)"

text \<open>
  The module globals of core/logic.py.  The module declares \<open>current_user = None\<close>;
  \<open>_set_current_user\<close> declares \<open>global _current_user\<close> and assigns to that name
  (\<open>x_current_user\<close> here, \<open>None\<close> while the name is unbound).
\<close>

record globals =
  current_user :: "string option"
  x_current_user :: "string option"

definition initial_globals :: globals where
  "initial_globals = \<lparr> current_user = None, x_current_user = None \<rparr>"

definition set_current_user :: "string \<Rightarrow> globals \<Rightarrow> globals" where
  "set_current_user username g = g\<lparr>x_current_user := Some username\<rparr>"

text \<open>\<open>return current_user or "default_user"\<close>\<close>

definition get_current_user :: "globals \<Rightarrow> string" where
  "get_current_user g =
     (case current_user g of
        None \<Rightarrow> ''default_user''
      | Some u \<Rightarrow> if u \<noteq> [] then u else ''default_user'')"

text \<open>\<open>SELECT ... FROM users WHERE username = ?\<close> followed by \<open>fetchone()\<close>\<close>

definition select_user :: "string \<Rightarrow> db \<Rightarrow> user_row option" where
  "select_user username d = find (\<lambda>r. u_username r = username) (users d)"

text \<open>\<open>register_user(username, email, password)\<close>; an exception of \<open>ph.hash\<close> is not
  caught.\<close>

definition register_user ::
  "PasswordHasher \<Rightarrow> string \<Rightarrow> string \<Rightarrow> string \<Rightarrow> db \<Rightarrow> exn + (bool \<times> db)" where
  "register_user ph username email password d =
     (case select_user username d of
        Some r \<Rightarrow> Inr (False, d)
      | None \<Rightarrow>
          (case hash_password ph password of
             Inl e \<Rightarrow> Inl e
           | Inr password_hash \<Rightarrow>
               (let new_id = next_rowid (users_seq d) (map u_id (users d));
                    row = \<lparr> u_id = new_id, u_username = username, u_email = email,
                            u_password_hash = password_hash \<rparr>
                in Inr (True, d\<lparr>users := users d @ [row], users_seq := new_id\<rparr>))))"

text \<open>Step 2 of \<open>login_user\<close>: the rehash, inside its own \<open>try\<close> whose handler passes.\<close>

definition upgrade_hash :: "PasswordHasher \<Rightarrow> int \<Rightarrow> string \<Rightarrow> string \<Rightarrow> db \<Rightarrow> db" where
  "upgrade_hash ph user_id stored_hash password d =
     (case ph_check_needs_rehash ph stored_hash of
        Inr True \<Rightarrow>
          (case ph_hash ph password of
             Inr new_hash \<Rightarrow>
               d\<lparr>users := map (\<lambda>r. if u_id r = user_id
                                     then r\<lparr>u_password_hash := new_hash\<rparr> else r) (users d)\<rparr>
           | Inl e \<Rightarrow> d)
      | Inr False \<Rightarrow> d
      | Inl e \<Rightarrow> d)"

text \<open>\<open>login_user(username, password)\<close>; the state is the database and the module
  globals.\<close>

definition login_user ::
  "PasswordHasher \<Rightarrow> string \<Rightarrow> string \<Rightarrow> db \<times> globals \<Rightarrow> bool \<times> db \<times> globals" where
  "login_user ph username password s =
     (case s of (d, g) \<Rightarrow>
        (case select_user username d of
           None \<Rightarrow> (False, d, g)
         | Some row \<Rightarrow>
             (let user_id = u_id row; stored_hash = u_password_hash row
              in if stored_hash = [] then (False, d, g)
                 else
                   (case verify_password_argon2 ph stored_hash password of
                      Inr True \<Rightarrow>
                        (True, upgrade_hash ph user_id stored_hash password d,
                         set_current_user username g)
                    | Inr False \<Rightarrow> (False, d, g)
                    | Inl e \<Rightarrow> (False, d, g)))))"

section \<open>core/logic.py: compute_duration\<close>

subsection \<open>The library function datetime.strptime\<close>

text \<open>
  \<open>datetime.strptime\<close> belongs to the standard library, not to the repository.  It is
  modelled on CPython's \<open>_strptime\<close> for the directives that \<open>compute_duration\<close> uses,
  in the C locale: the format becomes a regular expression, matched at the start of the
  string without regard to case; the first match in the order of a backtracking matcher
  is taken; it must reach the end of the string; the fields must form a valid date and
  time.  \<open>None\<close> stands for the \<open>ValueError\<close> raised otherwise.
\<close>

datatype directive =
    Dir_Y | Dir_m | Dir_d | Dir_H | Dir_I | Dir_M | Dir_S | Dir_p
  | Lit char
  | Spaces

definition digits :: string where
  "digits = ''0123456789''"

definition digits19 :: string where
  "digits19 = ''123456789''"

text \<open>
  The alternatives of a directive's regular expression, in their order; an alternative is
  a sequence of character classes.  For instance \<open>%m\<close> is \<open>1[0-2]|0[1-9]|[1-9]\<close>.  A run
  of whitespace in the format is \<open>\s+\<close>, treated in \<open>match_token\<close>.
\<close>

fun alternatives :: "directive \<Rightarrow> string list list" where
  "alternatives Dir_Y = [[digits, digits, digits, digits]]"
| "alternatives Dir_m = [[''1'', ''012''], [''0'', digits19], [digits19]]"
| "alternatives Dir_d =
     [[''3'', ''01''], [''12'', digits], [''0'', digits19], [digits19], ['' '', digits19]]"
| "alternatives Dir_H = [[''2'', ''0123''], [''01'', digits], [digits]]"
| "alternatives Dir_I = [[''1'', ''012''], [''0'', digits19], [digits19]]"
| "alternatives Dir_M = [[''012345'', digits], [digits]]"
| "alternatives Dir_S = [[''6'', ''01''], [''012345'', digits], [digits]]"
| "alternatives Dir_p = [[''aA'', ''mM''], [''pP'', ''mM'']]"
| "alternatives (Lit c) = [[[c]]]"
| "alternatives Spaces = []"

text \<open>Match a sequence of character classes at the start of the string: the matched
  text and the rest.\<close>

fun match_classes :: "string list \<Rightarrow> string \<Rightarrow> (string \<times> string) option" where
  "match_classes [] s = Some ([], s)"
| "match_classes (cl # cls) [] = None"
| "match_classes (cl # cls) (c # cs) =
     (if c \<in> set cl
      then map_option (\<lambda>(m, r). (c # m, r)) (match_classes cls cs)
      else None)"

text \<open>Every way in which one token matches at the start of the string, most preferred
  first: the alternatives in their order; for \<open>\s+\<close> the longest run first.\<close>

definition match_token :: "directive \<Rightarrow> string \<Rightarrow> (string \<times> string) list" where
  "match_token t s =
     (if t = Spaces
      then map (\<lambda>n. (take n s, drop n s)) (rev [1..<Suc (length (takeWhile is_space s))])
      else List.map_filter (\<lambda>alt. match_classes alt s) (alternatives t))"

text \<open>Every way in which the whole format matches at the start of the string, most
  preferred first, with the text captured by each token.\<close>

fun match_seq :: "directive list \<Rightarrow> string \<Rightarrow> ((directive \<times> string) list \<times> string) list" where
  "match_seq [] s = [([], s)]"
| "match_seq (t # ts) s =
     concat (map (\<lambda>(cap, rest). map (\<lambda>(caps, r). ((t, cap) # caps, r)) (match_seq ts rest))
                 (match_token t s))"

text \<open>\<open>format_regex.match(data_string)\<close> and the test that no unconverted data
  remains.\<close>

definition regex_match :: "directive list \<Rightarrow> string \<Rightarrow> (directive \<times> string) list option" where
  "regex_match fmt s =
     (case match_seq fmt s of
        [] \<Rightarrow> None
      | (caps, rest) # _ \<Rightarrow> if rest = [] then Some caps else None)"

definition isleap :: "int \<Rightarrow> bool" where
  "isleap y = (y mod 4 = 0 \<and> (y mod 100 \<noteq> 0 \<or> y mod 400 = 0))"

definition days_in_month :: "int \<Rightarrow> int \<Rightarrow> int" where
  "days_in_month y m =
     (if m = 2 then (if isleap y then 29 else 28)
      else if m = 4 \<or> m = 6 \<or> m = 9 \<or> m = 11 then 30 else 31)"

text \<open>The constructor \<open>datetime(year, month, day, hour, minute, second)\<close> raises
  \<open>ValueError\<close> outside these ranges.\<close>

definition valid_datetime :: "datetime \<Rightarrow> bool" where
  "valid_datetime t =
     (1 \<le> d_year t \<and> d_year t \<le> 9999 \<and> 1 \<le> d_month t \<and> d_month t \<le> 12
      \<and> 1 \<le> d_day t \<and> d_day t \<le> days_in_month (d_year t) (d_month t)
      \<and> 0 \<le> d_hour t \<and> d_hour t \<le> 23 \<and> 0 \<le> d_minute t \<and> d_minute t \<le> 59
      \<and> 0 \<le> d_second t \<and> d_second t \<le> 59)"

text \<open>The integer of a captured group; a group that the format does not have keeps its
  default.\<close>

definition group_int :: "(directive \<times> string) list \<Rightarrow> directive \<Rightarrow> int \<Rightarrow> int option" where
  "group_int caps k dflt =
     (case map_of caps k of None \<Rightarrow> Some dflt | Some s \<Rightarrow> int_of_str s)"

text \<open>The hour: \<open>%H\<close> as it stands; \<open>%I\<close> with the AM/PM indicator, where no indicator
  counts as AM.\<close>

definition hour_of :: "(directive \<times> string) list \<Rightarrow> int option" where
  "hour_of caps =
     (case map_of caps Dir_I of
        None \<Rightarrow> group_int caps Dir_H 0
      | Some s \<Rightarrow>
          (case int_of_str s of
             None \<Rightarrow> None
           | Some hour \<Rightarrow>
               (let ampm = (case map_of caps Dir_p of None \<Rightarrow> [] | Some a \<Rightarrow> py_lower a)
                in if ampm = [] \<or> ampm = ''am'' then Some (if hour = 12 then 0 else hour)
                   else if ampm = ''pm'' then Some (if hour \<noteq> 12 then hour + 12 else hour)
                   else Some hour)))"

definition strptime :: "string \<Rightarrow> directive list \<Rightarrow> datetime option" where
  "strptime data_string fmt =
     (case regex_match fmt data_string of
        None \<Rightarrow> None
      | Some caps \<Rightarrow>
          (case (group_int caps Dir_Y 1900, group_int caps Dir_m 1, group_int caps Dir_d 1,
                 hour_of caps, group_int caps Dir_M 0, group_int caps Dir_S 0) of
             (Some year, Some month, Some day, Some hour, Some minute, Some second) \<Rightarrow>
               (let t = \<lparr> d_year = year, d_month = month, d_day = day, d_hour = hour,
                          d_minute = minute, d_second = second \<rparr>
                in if valid_datetime t then Some t else None)
           | _ \<Rightarrow> None))"

subsection \<open>Differences of datetimes\<close>

text \<open>\<open>date.toordinal()\<close>: the days since 0001-01-01, that day being 1.\<close>

definition days_before_year :: "int \<Rightarrow> int" where
  "days_before_year y = (y - 1) * 365 + (y - 1) div 4 - (y - 1) div 100 + (y - 1) div 400"

definition days_before_month :: "int \<Rightarrow> int \<Rightarrow> int" where
  "days_before_month y m = sum_list (map (days_in_month y) [1..m - 1])"

definition toordinal :: "datetime \<Rightarrow> int" where
  "toordinal t = days_before_year (d_year t) + days_before_month (d_year t) (d_month t) + d_day t"

text \<open>\<open>(end - start).total_seconds()\<close>, a whole number for datetimes without
  microseconds.\<close>

definition total_seconds :: "datetime \<Rightarrow> datetime \<Rightarrow> int" where
  "total_seconds end start =
     (toordinal end - toordinal start) * 86400
     + (d_hour end - d_hour start) * 3600
     + (d_minute end - d_minute start) * 60
     + (d_second end - d_second start)"

subsection \<open>compute_duration\<close>

definition patterns :: "directive list list" where
  "patterns =
     [[Dir_Y, Lit CHR ''-'', Dir_m, Lit CHR ''-'', Dir_d, Spaces, Dir_I, Lit CHR '':'', Dir_M,
       Spaces, Dir_p],
      [Dir_Y, Lit CHR ''-'', Dir_m, Lit CHR ''-'', Dir_d, Spaces, Dir_H, Lit CHR '':'', Dir_M],
      [Dir_Y, Lit CHR ''-'', Dir_m, Lit CHR ''-'', Dir_d, Spaces, Dir_H, Lit CHR '':'', Dir_M,
       Lit CHR '':'', Dir_S]]"

text \<open>The loop \<open>for p in patterns\<close> of the inner function \<open>parse\<close>: the first pattern that
  parses wins.\<close>

fun try_patterns :: "string \<Rightarrow> directive list list \<Rightarrow> datetime option" where
  "try_patterns ts [] = None"
| "try_patterns ts (p # ps) =
     (case strptime ts p of Some t \<Rightarrow> Some t | None \<Rightarrow> try_patterns ts ps)"

text \<open>The string \<open>f"{d} {t}".strip()\<close> that \<open>parse\<close> hands to \<open>strptime\<close>.\<close>

definition timestamp :: "pyval \<Rightarrow> pyval \<Rightarrow> string" where
  "timestamp d t = py_strip (py_str d @ '' '' @ py_str t)"

definition parse :: "pyval \<Rightarrow> pyval \<Rightarrow> datetime option" where
  "parse d t =
     (case t of
        PDatetime x \<Rightarrow> Some x
      | _ \<Rightarrow> try_patterns (timestamp d t) patterns)"

definition compute_duration :: "pyval \<Rightarrow> pyval \<Rightarrow> pyval \<Rightarrow> pyval \<Rightarrow> string" where
  "compute_duration arr_date arr_time dep_date dep_time =
     (case (parse arr_date arr_time, parse dep_date dep_time) of
        (Some start, Some end) \<Rightarrow>
          (let mins = total_seconds end start div 60;
               h = mins div 60;
               m = mins mod 60;
               hr_label = (if h = 1 then ''hr'' else ''hrs'');
               min_label = (if m = 1 then ''min'' else ''mins'')
           in str_of_int h @ hr_label @ '', '' @ str_of_int m @ min_label)
      | _ \<Rightarrow> ''0hr, 0min'')"

section \<open>core/models/inventory_model.py\<close>

text \<open>\<open>InventoryItem.add_quantity(part_number, quantity, user="default_user")\<close>; callers
  that leave \<open>user\<close> out pass \<open>''default_user''\<close> here.  The \<open>UPDATE\<close> binds
  \<open>quantity\<close>.\<close>

definition InventoryItem_add_quantity :: "string \<Rightarrow> int \<Rightarrow> string \<Rightarrow> db \<Rightarrow> outcome" where
  "InventoryItem_add_quantity part_number quantity usr d =
     (if part_number = [] \<or> quantity \<le> 0 then Returns d
      else if \<not> in_int64 quantity then Raises OverflowError
      else
        (case inv_add quantity part_number usr (inventory_items d) of
           None \<Rightarrow> Stores_REAL
         | Some rows \<Rightarrow> Returns (d\<lparr>inventory_items := rows\<rparr>)))"

text \<open>\<open>InventoryItem.create(**kw)\<close>; \<open>kw.get("user", "default_user")\<close> takes the default
  only when the key is absent.  The \<open>INSERT\<close> binds the quantity.\<close>

definition InventoryItem_create :: "kwargs \<Rightarrow> db \<Rightarrow> py_error + db" where
  "InventoryItem_create kw d =
     (let quantity = safe_int (dict_get kw ''quantity'') 0;
          new_id = next_rowid (inventory_items_seq d) (map inv_id (inventory_items d));
          row = \<lparr> inv_id = new_id,
                  inv_part_number = safe_str (dict_get kw ''part_number''),
                  inv_quantity = Some quantity,
                  inv_part_location = safe_str (dict_get kw ''part_location''),
                  inv_model = safe_str (dict_get kw ''model''),
                  inv_part_description = safe_str (dict_get kw ''part_description''),
                  inv_quarterly_inventory_verification_date =
                    safe_str (dict_get kw ''quarterly_inventory_verification_date''),
                  inv_category_id = safe_str (dict_get kw ''category_id''),
                  inv_notes = safe_str (dict_get kw ''notes''),
                  inv_user = safe_str (case kw ''user'' of
                                         None \<Rightarrow> PStr ''default_user'' | Some v \<Rightarrow> v) \<rparr>
      in if \<not> in_int64 quantity then Inl OverflowError
         else Inr (d\<lparr>inventory_items := inventory_items d @ [row],
                     inventory_items_seq := new_id\<rparr>))"

section \<open>ui/pages/service_activity_page.py\<close>

text \<open>
  \<open>ServiceActivityPage._do_delete(item)\<close>; \<open>confirm\<close> is the answer to the confirmation
  dialog.  The call to \<open>add_quantity\<close> passes the part and the quantity only.  An
  exception of \<open>add_quantity\<close> is caught and shown in a message box; \<open>item.delete()\<close> is
  then not reached.
\<close>

definition ServiceActivityPage_do_delete :: "bool \<Rightarrow> ServiceActivity \<Rightarrow> db \<Rightarrow> outcome" where
  "ServiceActivityPage_do_delete confirm item d =
     (if \<not> confirm then Returns d
      else
        (let part = py_strip (sa_part_replaced item);
             qty = sa_quantity item
         in if part \<noteq> [] \<and> qty > 0 then
              (case InventoryItem_add_quantity part qty ''default_user'' d of
                 Returns d1 \<Rightarrow> Returns (ServiceActivity_delete item d1)
               | Raises e \<Rightarrow> Returns d
               | Stores_REAL \<Rightarrow> Stores_REAL)
            else Returns (ServiceActivity_delete item d)))"

section \<open>core/importers/inventory_importer.py\<close>

text \<open>
  A worksheet as the importer reads it: the cell values of row 1 and the rows from row 2
  on.  A workbook maps sheet names to worksheets; \<open>wb[sheet_name]\<close> raises \<open>KeyError\<close>
  for a name it does not have.  \<open>InventoryItem.create\<close> commits each record, so the
  importer's result is what it returns or raises, together with the database it leaves.
\<close>

record worksheet =
  header_row :: "pyval list"
  data_rows :: "pyval list list"

type_synonym workbook = "string \<rightharpoonup> worksheet"

definition REQUIRED_HEADERS :: "string list" where
  "REQUIRED_HEADERS =
     [''part number'', ''qty'', ''part location'', ''model'', ''part description'',
      ''quarterly inventory verification date'', ''days since last verification'',
      ''notes'', ''today's date'']"

text \<open>\<open>[str(c.value).strip().lower() if c.value else "" for c in row]\<close>\<close>

definition read_headers :: "pyval list \<Rightarrow> string list" where
  "read_headers cells =
     map (\<lambda>v. if truthy v then py_lower (py_strip (py_str v)) else []) cells"

text \<open>\<open>dict(zip(headers, row))\<close>: for a repeated header the last cell wins.\<close>

definition zip_dict :: "string list \<Rightarrow> pyval list \<Rightarrow> kwargs" where
  "zip_dict headers row = map_of (rev (zip headers row))"

text \<open>The body of the loop over the data rows; the result is the database and whether a
  record was inserted, or the exception of \<open>InventoryItem.create\<close>.\<close>

definition import_row ::
  "string list \<Rightarrow> pyval \<Rightarrow> pyval list \<Rightarrow> db \<Rightarrow> py_error + (db \<times> bool)" where
  "import_row headers usr row d =
     (if \<not> list_ex truthy row then Inr (d, False)
      else
        (let row_dict = zip_dict headers row;
             raw_date = dict_get row_dict ''quarterly inventory verification date'';
             clean_date = (case raw_date of
                             PDatetime t \<Rightarrow> PDate (date.truncate t)
                           | _ \<Rightarrow> raw_date);
             item_data =
               [(''part_number'', dict_get row_dict ''part number''),
                (''quantity'', dict_get row_dict ''qty''),
                (''part_location'', dict_get row_dict ''part location''),
                (''model'', dict_get row_dict ''model''),
                (''part_description'', dict_get row_dict ''part description''),
                (''quarterly_inventory_verification_date'', clean_date),
                (''notes'', dict_get row_dict ''notes''),
                (''category_id'', if ''category'' \<in> set headers
                                   then dict_get row_dict ''category'' else PNone),
                (''user'', usr)]
         in if \<not> list_ex (\<lambda>(k, v). k \<noteq> ''user'' \<and> truthy v) item_data then Inr (d, False)
            else
              (case InventoryItem_create (map_of item_data) d of
                 Inl e \<Rightarrow> Inl e
               | Inr d' \<Rightarrow> Inr (d', True))))"

fun import_rows ::
  "string list \<Rightarrow> pyval \<Rightarrow> pyval list list \<Rightarrow> nat \<Rightarrow> db \<Rightarrow> (py_error + nat) \<times> db" where
  "import_rows headers usr [] added d = (Inr added, d)"
| "import_rows headers usr (row # rows) added d =
     (case import_row headers usr row d of
        Inl e \<Rightarrow> (Inl e, d)
      | Inr (d', inserted) \<Rightarrow>
          import_rows headers usr rows (if inserted then added + 1 else added) d')"

text \<open>\<open>import_inventory_from_excel(path, sheet_name, user)\<close>; the workbook is what
  \<open>openpyxl.load_workbook(path)\<close> returned.\<close>

definition import_inventory_from_excel ::
  "workbook \<Rightarrow> string \<Rightarrow> pyval \<Rightarrow> db \<Rightarrow> (py_error + (nat \<times> string list)) \<times> db" where
  "import_inventory_from_excel wb sheet_name usr d =
     (case wb sheet_name of
        None \<Rightarrow> (Inl (KeyError sheet_name), d)
      | Some ws \<Rightarrow>
          (let headers = read_headers (header_row ws);
               missing = filter (\<lambda>h. h \<notin> set headers) REQUIRED_HEADERS
           in if missing \<noteq> [] then (Inr (0, missing), d)
              else
                (case import_rows headers usr (data_rows ws) 0 d of
                   (Inl e, d') \<Rightarrow> (Inl e, d')
                 | (Inr added, d') \<Rightarrow> (Inr (added, []), d'))))"

section \<open>ui/components/filters/filter_proxy_models.py\<close>

text \<open>
  A row object is the map of its attributes.  The source model of a proxy either has an
  attribute \<open>items\<close>, the list of row objects, or has none.
\<close>

type_synonym item = "string \<rightharpoonup> pyval"

record ColumnFilterProxy =
  filters :: "(string \<times> string set) list"
  columns :: "string list"

text \<open>\<open>set_filters\<close> replaces the dictionary; \<open>invalidateFilter()\<close> makes Qt call
  \<open>filterAcceptsRow\<close> again for every row.\<close>

definition set_filters :: "(string \<times> string set) list \<Rightarrow> ColumnFilterProxy \<Rightarrow> ColumnFilterProxy" where
  "set_filters fs p = p\<lparr>filters := fs\<rparr>"

text \<open>\<open>val = getattr(item, col_name, ""); sval = "" if val is None else str(val)\<close>\<close>

definition sval :: "item \<Rightarrow> string \<Rightarrow> string" where
  "sval it col_name =
     (let val = (case it col_name of None \<Rightarrow> PStr [] | Some v \<Rightarrow> v)
      in if val = PNone then [] else py_str val)"

text \<open>The loop over \<open>self.filters.items()\<close>.\<close>

fun passes_filters :: "string list \<Rightarrow> item \<Rightarrow> (string \<times> string set) list \<Rightarrow> bool" where
  "passes_filters cols it [] = True"
| "passes_filters cols it ((col_name, allowed) # rest) =
     (if allowed = {} then passes_filters cols it rest
      else if col_name \<notin> set cols then passes_filters cols it rest
      else if sval it col_name \<notin> allowed then False
      else passes_filters cols it rest)"

definition filterAcceptsRow :: "ColumnFilterProxy \<Rightarrow> item list option \<Rightarrow> int \<Rightarrow> bool" where
  "filterAcceptsRow p src source_row =
     (case src of
        None \<Rightarrow> True
      | Some items \<Rightarrow>
          if source_row < 0 \<or> source_row \<ge> int (length items) then True
          else passes_filters (columns p) (items ! nat source_row) (filters p))"

text \<open>The source rows that the proxy shows: Qt asks \<open>filterAcceptsRow\<close> once per row.\<close>

definition visible_rows :: "ColumnFilterProxy \<Rightarrow> item list \<Rightarrow> nat list" where
  "visible_rows p items =
     filter (\<lambda>i. filterAcceptsRow p (Some items) (int i)) [0..<length items]"

section \<open>Example data\<close>

definition mk_sa :: "int option \<Rightarrow> string \<Rightarrow> int \<Rightarrow> string \<Rightarrow> ServiceActivity" where
  "mk_sa i part q usr =
     \<lparr> sa_id = i, sa_area = [], sa_customer = [], sa_serial_number = [], sa_meter = [],
       sa_malfunction = [], sa_arrival_date = [], sa_arrival_time = [],
       sa_remedial_action = [], sa_quantity = q, sa_part_replaced = part,
       sa_departure_date = [], sa_departure_time = [], sa_call_duration = [],
       sa_technician = [], sa_comments = [], sa_user = usr \<rparr>"

definition mk_inv :: "int \<Rightarrow> string \<Rightarrow> int option \<Rightarrow> string \<Rightarrow> inventory_row" where
  "mk_inv i part q usr =
     \<lparr> inv_id = i, inv_part_number = part, inv_quantity = q, inv_part_location = [],
       inv_model = [], inv_part_description = [],
       inv_quarterly_inventory_verification_date = [], inv_category_id = [],
       inv_notes = [], inv_user = usr \<rparr>"

definition mk_db :: "ServiceActivity list \<Rightarrow> inventory_row list \<Rightarrow> db" where
  "mk_db sas invs =
     \<lparr> users = [], users_seq = 0, service_activity = sas,
       service_activity_seq = int (length sas), inventory_items = invs,
       inventory_items_seq = int (length invs) \<rparr>"

text \<open>The keyword arguments of a call to \<open>ServiceActivity.create\<close> that names a part,
  a quantity and a user.\<close>

definition sa_data :: "string \<Rightarrow> pyval \<Rightarrow> string \<Rightarrow> kwargs" where
  "sa_data part q usr =
     [''part_replaced'' \<mapsto> PStr part, ''quantity'' \<mapsto> q, ''user'' \<mapsto> PStr usr]"

text \<open>A call that names a part and a user and leaves the quantity out.\<close>

definition data_no_quantity :: kwargs where
  "data_no_quantity = [''part_replaced'' \<mapsto> PStr ''X1'', ''user'' \<mapsto> PStr ''u'']"

text \<open>A hasher that accepts exactly the password \<open>''pw''\<close> for the hash \<open>''H''\<close> and, as
  the library does, fails to encode a hash with a character outside ASCII; and a users
  table with one account.\<close>

definition ph_example :: PasswordHasher where
  "ph_example =
     \<lparr> ph_hash = (\<lambda>p. Inr (''hash of '' @ p)),
       ph_verify = (\<lambda>h p. if list_ex (\<lambda>c. 128 \<le> (of_char c :: nat)) h
                             then Inl UnicodeEncodeError
                           else if h \<noteq> ''H'' then Inl InvalidHash
                           else if p = ''pw'' then Inr True else Inl VerifyMismatchError),
       ph_check_needs_rehash = (\<lambda>h. Inr False) \<rparr>"

definition db_alice :: db where
  "db_alice =
     \<lparr> users = [\<lparr> u_id = 1, u_username = ''alice'', u_email = ''a@example.org'',
                   u_password_hash = ''H'' \<rparr>],
       users_seq = 1, service_activity = [], service_activity_seq = 0,
       inventory_items = [], inventory_items_seq = 0 \<rparr>"

text \<open>Row objects with a \<open>model\<close> attribute, and five of them: three \<open>A\<close>, two \<open>B\<close>.\<close>

definition model_item :: "string \<Rightarrow> item" where
  "model_item m = [''model'' \<mapsto> PStr m]"

definition five_rows :: "item list" where
  "five_rows = [model_item ''A'', model_item ''B'', model_item ''A'', model_item ''B'',
                model_item ''A'']"

definition proxy_model_A :: ColumnFilterProxy where
  "proxy_model_A = \<lparr> filters = [(''model'', {''A''})], columns = [''model'', ''category''] \<rparr>"

text \<open>A filter whose key is not one of the proxy's columns.\<close>

definition proxy_unknown_key :: ColumnFilterProxy where
  "proxy_unknown_key = \<lparr> filters = [(''colour'', {''A''})], columns = [''model''] \<rparr>"

text \<open>A workbook whose sheet has three of the nine required headers, and one data row.\<close>

definition ws_short :: worksheet where
  "ws_short =
     \<lparr> header_row = [PStr ''Part Number'', PStr '' QTY '', PStr ''Model'', PNone],
       data_rows = [[PStr ''X1'', PInt 4, PStr ''M'', PNone]] \<rparr>"

definition wb_short :: workbook where
  "wb_short = [''Sheet1'' \<mapsto> ws_short]"

text \<open>The stored quantity of a row, \<open>NULL\<close> read as the code reads it (\<open>row[0] or 0\<close>).\<close>

definition qty_or_0 :: "inventory_row \<Rightarrow> int" where
  "qty_or_0 r = (case inv_quantity r of None \<Rightarrow> 0 | Some q \<Rightarrow> q)"

section \<open>Properties\<close>

subsection \<open>The edges of the integer conversions\<close>

text \<open>\<open>int()\<close> rejects a separator that \<open>str.strip()\<close> would drop, and a string of more
  than 4300 digits; \<open>safe_int\<close> then gives its default.\<close>

lemma int_rejects_separator: "safe_int (PStr [CHR 0x1F, CHR ''7'']) 9 = 9"
  by (simp add: safe_int_def int_of_str_def int_strip_def is_int_space_def
      int_max_str_digits_def is_digit_def parse_unsigned_def)

lemma int_rejects_long: "safe_int (PStr (replicate 4301 CHR ''1'')) 0 = 0"
  by (simp add: safe_int_def int_of_str_def int_max_str_digits_def is_digit_def)

text \<open>An \<open>update\<close> with a quantity outside the 64-bit range raises at the bind; a restock
  that leaves the range stores a REAL.\<close>

lemma update_quantity_overflow:
  "ServiceActivity_update (mk_sa (Some 1) ''X1'' (2 ^ 63) ''u'')
     (mk_db [mk_sa (Some 1) ''X1'' 1 ''u''] [mk_inv 1 ''X1'' (Some 10) ''u''])
   = Raises OverflowError"
  by (simp add: ServiceActivity_update_def mk_db_def mk_sa_def select_by_id_def
      safe_int_def Let_def in_int64_def)

lemma add_quantity_stores_real:
  "InventoryItem_add_quantity ''X1'' 1 ''u'' (mk_db [] [mk_inv 1 ''X1'' (Some (2 ^ 63 - 1)) ''u''])
   = Stores_REAL"
  by (simp add: InventoryItem_add_quantity_def inv_add_def mk_db_def mk_inv_def inv_match_def
      in_int64_def)

subsection \<open>Update of an activity that is not in the table\<close>



subsection \<open>Inventory adjustment on create\<close>

lemma find_inv_set_quantity:
  "find (inv_match part usr) rows = Some r \<Longrightarrow>
   find (inv_match part usr) (inv_set_quantity q part usr rows) =
     Some (r\<lparr>inv_quantity := Some q\<rparr>)"
  by (induction rows) (auto simp: inv_set_quantity_def inv_match_def)

text \<open>What \<open>create\<close> does to table \<open>inventory_items\<close> when the quantity binds, in one
  equation; and what it does when the quantity does not bind.\<close>

lemma create_inventory:
  assumes "in_int64 (safe_int (dict_get data ''quantity'') 0)"
  shows "\<exists>d'. ServiceActivity_create data d = Inr d' \<and>
    inventory_items d' =
    (let part = safe_str (dict_get data ''part_replaced'');
         usr = safe_str (py_or (dict_get data ''user'') (PStr ''default_user''));
         quantity = safe_int (dict_get data ''quantity'') 0
     in if part = [] then inventory_items d
        else case find (inv_match part usr) (inventory_items d) of
               None \<Rightarrow> inventory_items d
             | Some r \<Rightarrow>
                 inv_set_quantity (max 0 (qty_or_0 r - (if quantity > 0 then quantity else 1)))
                   part usr (inventory_items d))"
  using assms
  by (simp add: ServiceActivity_create_def Let_def qty_or_0_def split: option.splits)

lemma create_overflow:
  "\<not> in_int64 (safe_int (dict_get data ''quantity'') 0) \<Longrightarrow>
   ServiceActivity_create data d = Inl OverflowError"
  by (simp add: ServiceActivity_create_def Let_def)

text \<open>
  C9, as stated: for every ServiceActivity created with a non-empty \<open>part_replaced\<close> and
  a missing, zero or negative quantity, \<open>create\<close> decrements the matching inventory row by
  exactly 1, clamped at zero.  It fails in two places.  A quantity below \<open>-2^63\<close>, which
  the Quantity field accepts, does not bind: the \<open>INSERT\<close> raises \<open>OverflowError\<close> and
  no row is decremented.  And where two rows hold the part for the user, the second is
  not decremented by 1 but set to what the first becomes: here 5 becomes 9.
\<close>

theorem create_default_quantity_counterexample:
  "ServiceActivity_create (sa_data ''X1'' (PStr ''-9223372036854775809'') ''u'')
       (mk_db [] [mk_inv 1 ''X1'' (Some 10) ''u''])
     = Inl OverflowError
   \<and> ServiceActivity_create (sa_data ''X1'' (PInt 0) ''u'')
       (mk_db [] [mk_inv 1 ''X1'' (Some 10) ''u'', mk_inv 2 ''X1'' (Some 5) ''u''])
     = Inr (mk_db [mk_sa (Some 1) ''X1'' 0 ''u'']
             [mk_inv 1 ''X1'' (Some 9) ''u'', mk_inv 2 ''X1'' (Some 9) ''u''])"
  by (simp add: ServiceActivity_create_def sa_data_def mk_db_def
      mk_sa_def mk_inv_def dict_get_def safe_str_def safe_int_def py_strip_def is_space_def
      int_of_str_def int_strip_def is_int_space_def int_max_str_digits_def
      parse_unsigned_def is_digit_def digit_val_def py_or_def next_rowid_def
      inv_match_def inv_set_quantity_def Let_def in_int64_def)

text \<open>
  C9, amended: when \<open>ServiceActivity.create\<close> is called with a non-empty \<open>part_replaced\<close>
  and a quantity that is missing, zero or negative (\<open>safe_int\<close> gives a value \<open>\<le> 0\<close>)
  and not below \<open>-2^63\<close>, it returns, and every inventory row of that part and user holds
  \<open>max(0, q - 1)\<close>, where \<open>q\<close> is the quantity of the first such row, the one that the
  \<open>SELECT\<close> finds (\<open>NULL\<close> read as 0): that row is decremented by exactly 1, clamped at
  zero, the consumed quantity being 1 rather than 0.  Rows of other parts or users are
  left as they were.
\<close>

theorem create_default_quantity:
  assumes "safe_str (dict_get data ''part_replaced'') = part" and "part \<noteq> []"
    and "safe_str (py_or (dict_get data ''user'') (PStr ''default_user'')) = usr"
    and "safe_int (dict_get data ''quantity'') 0 \<le> 0"
    and "- (2 ^ 63) \<le> safe_int (dict_get data ''quantity'') 0"
    and "find (inv_match part usr) (inventory_items d) = Some r"
  shows "\<exists>d'. ServiceActivity_create data d = Inr d'
           \<and> inventory_items d' =
               map (\<lambda>x. if inv_match part usr x
                         then x\<lparr>inv_quantity := Some (max 0 (qty_or_0 r - 1))\<rparr> else x)
                   (inventory_items d)
           \<and> find (inv_match part usr) (inventory_items d') =
               Some (r\<lparr>inv_quantity := Some (max 0 (qty_or_0 r - 1))\<rparr>)"
proof -
  have "in_int64 (safe_int (dict_get data ''quantity'') 0)"
    using assms(4,5) by (simp add: in_int64_def)
  from create_inventory [OF this, of d] obtain d' where
    c: "ServiceActivity_create data d = Inr d'" and
    i: "inventory_items d' =
          inv_set_quantity (max 0 (qty_or_0 r - 1)) part usr (inventory_items d)"
    using assms by (auto simp: Let_def)
  from i have "find (inv_match part usr) (inventory_items d') =
               Some (r\<lparr>inv_quantity := Some (max 0 (qty_or_0 r - 1))\<rparr>)"
    using assms(6) by (simp add: find_inv_set_quantity)
  with c i show ?thesis by (simp add: inv_set_quantity_def)
qed

theorem create_default_quantity_witness:
  "safe_str (dict_get data_no_quantity ''part_replaced'') = ''X1'' \<and> ''X1'' \<noteq> []
   \<and> safe_str (py_or (dict_get data_no_quantity ''user'') (PStr ''default_user'')) = ''u''
   \<and> safe_int (dict_get data_no_quantity ''quantity'') 0 \<le> 0
   \<and> - (2 ^ 63) \<le> safe_int (dict_get data_no_quantity ''quantity'') 0
   \<and> find (inv_match ''X1'' ''u'')
        (inventory_items (mk_db [] [mk_inv 1 ''Y'' (Some 4) ''u'', mk_inv 2 ''X1'' (Some 10) ''u'',
                                    mk_inv 3 ''X1'' (Some 5) ''u'']))
      = Some (mk_inv 2 ''X1'' (Some 10) ''u'')
   \<and> map_sum id inventory_items (ServiceActivity_create data_no_quantity
        (mk_db [] [mk_inv 1 ''Y'' (Some 4) ''u'', mk_inv 2 ''X1'' (Some 10) ''u'',
                   mk_inv 3 ''X1'' (Some 5) ''u'']))
      = Inr [mk_inv 1 ''Y'' (Some 4) ''u'', mk_inv 2 ''X1'' (Some 9) ''u'',
             mk_inv 3 ''X1'' (Some 9) ''u'']"
proof -
  let ?d = "mk_db [] [mk_inv 1 ''Y'' (Some 4) ''u'', mk_inv 2 ''X1'' (Some 10) ''u'',
                      mk_inv 3 ''X1'' (Some 5) ''u'']"
  have h1: "safe_str (dict_get data_no_quantity ''part_replaced'') = ''X1''"
    by (simp add: data_no_quantity_def dict_get_def safe_str_def py_strip_def is_space_def)
  have h2: "''X1'' \<noteq> []" by simp
  have h3: "safe_str (py_or (dict_get data_no_quantity ''user'') (PStr ''default_user'')) = ''u''"
    by (simp add: data_no_quantity_def dict_get_def safe_str_def py_strip_def is_space_def py_or_def)
  have q: "safe_int (dict_get data_no_quantity ''quantity'') 0 = 0"
    by (simp add: data_no_quantity_def dict_get_def safe_int_def)
  have h4: "safe_int (dict_get data_no_quantity ''quantity'') 0 \<le> 0"
    by (simp add: q)
  have h5: "- (2 ^ 63) \<le> safe_int (dict_get data_no_quantity ''quantity'') 0"
    by (simp add: q)
  have h6: "find (inv_match ''X1'' ''u'') (inventory_items ?d) = Some (mk_inv 2 ''X1'' (Some 10) ''u'')"
    by (simp add: mk_db_def mk_inv_def inv_match_def)
  have m: "map (\<lambda>x. if inv_match ''X1'' ''u'' x
                    then x\<lparr>inv_quantity :=
                           Some (max 0 (qty_or_0 (mk_inv 2 ''X1'' (Some 10) ''u'') - 1))\<rparr> else x)
               (inventory_items ?d)
           = [mk_inv 1 ''Y'' (Some 4) ''u'', mk_inv 2 ''X1'' (Some 9) ''u'',
              mk_inv 3 ''X1'' (Some 9) ''u'']"
    by (simp add: mk_db_def mk_inv_def inv_match_def qty_or_0_def)
  from create_default_quantity [OF h1 h2 h3 h4 h5 h6]
  have "map_sum id inventory_items (ServiceActivity_create data_no_quantity ?d)
      = Inr [mk_inv 1 ''Y'' (Some 4) ''u'', mk_inv 2 ''X1'' (Some 9) ''u'',
             mk_inv 3 ''X1'' (Some 9) ''u'']"
    by (auto simp: m)
  with h1 h3 h4 h5 h6 show ?thesis by simp
qed

subsection \<open>Non-negative quantities\<close>

text \<open>\<open>create\<close> keeps a non-negative quantity non-negative.\<close>

lemma create_keeps_quantity_nonneg:
  assumes "ServiceActivity_create data d = Inr d'"
    and "i < length (inventory_items d)"
    and "inv_quantity (inventory_items d ! i) = Some q" and "0 \<le> q"
  shows "\<exists>q'. inv_quantity (inventory_items d' ! i) = Some q' \<and> 0 \<le> q'"
  using assms
  by (auto simp: ServiceActivity_create_def Let_def inv_set_quantity_def
           split: option.splits if_splits)

lemma inv_add_length:
  "inv_add n part usr rows = Some rows' \<Longrightarrow> length rows' = length rows"
  by (auto simp: inv_add_def split: if_splits)

lemma inv_add_nonneg:
  assumes "inv_add n part usr rows = Some rows'"
    and "i < length rows" and "inv_quantity (rows ! i) = Some q" and "0 \<le> q" and "0 \<le> n"
  shows "\<exists>q'. inv_quantity (rows' ! i) = Some q' \<and> 0 \<le> q'"
  using assms by (auto simp: inv_add_def split: if_splits)

lemma inv_sub_clamped_nonneg:
  assumes "inv_sub_clamped n part usr rows = Some rows'"
    and "i < length rows" and "inv_quantity (rows ! i) = Some q" and "0 \<le> q"
  shows "\<exists>q'. inv_quantity (rows' ! i) = Some q' \<and> 0 \<le> q'"
  using assms by (auto simp: inv_sub_clamped_def split: if_splits)

lemma adjust_inventory_nonneg:
  assumes "adjust_inventory old_part old_qty new_part new_qty usr rows = Some rows'"
    and "i < length rows" and "inv_quantity (rows ! i) = Some q" and "0 \<le> q"
    and "0 \<le> old_qty"
  shows "\<exists>q'. inv_quantity (rows' ! i) = Some q' \<and> 0 \<le> q'"
proof (cases "old_part \<noteq> [] \<and> old_part \<noteq> new_part")
  case True
  with assms(1) obtain rows1 where
    r1: "inv_add old_qty old_part usr rows = Some rows1" and
    r2: "(if new_part \<noteq> [] then inv_sub_clamped new_qty new_part usr rows1 else Some rows1)
           = Some rows'"
    by (cases "inv_add old_qty old_part usr rows") (simp_all add: adjust_inventory_def)
  from inv_add_nonneg [OF r1 assms(2,3,4,5)] obtain q1 where
    q1: "inv_quantity (rows1 ! i) = Some q1" "0 \<le> q1" by blast
  have len: "i < length rows1"
    using inv_add_length [OF r1] assms(2) by simp
  show ?thesis
  proof (cases "new_part \<noteq> []")
    case True
    with r2 have "inv_sub_clamped new_qty new_part usr rows1 = Some rows'" by simp
    from inv_sub_clamped_nonneg [OF this len q1] show ?thesis .
  next
    case False
    with r2 q1 show ?thesis by simp
  qed
next
  case False
  note not_changed = this
  show ?thesis
  proof (cases "old_part = new_part \<and> new_part \<noteq> []")
    case True
    let ?diff = "new_qty - old_qty"
    from True not_changed assms(1) have
      e: "(if ?diff > 0 then
             (if in_int64 ?diff then inv_sub_clamped ?diff new_part usr rows else Some rows)
           else if ?diff < 0 then
             (if in_int64 (- ?diff) then inv_add (- ?diff) new_part usr rows else Some rows)
           else Some rows) = Some rows'"
      by (simp add: adjust_inventory_def Let_def)
    show ?thesis
    proof (cases "?diff > 0 \<and> in_int64 ?diff")
      case True
      with e have "inv_sub_clamped ?diff new_part usr rows = Some rows'" by simp
      from inv_sub_clamped_nonneg [OF this assms(2,3,4)] show ?thesis .
    next
      case False
      note not_sub = this
      show ?thesis
      proof (cases "?diff < 0 \<and> in_int64 (- ?diff)")
        case True
        with e have a: "inv_add (- ?diff) new_part usr rows = Some rows'" by simp
        from True have "0 \<le> - ?diff" by simp
        from inv_add_nonneg [OF a assms(2,3,4) this] show ?thesis .
      next
        case False
        with not_sub e have "rows' = rows" by (simp split: if_splits)
        with assms(3,4) show ?thesis by simp
      qed
    qed
  next
    case False
    note not_same = this
    show ?thesis
    proof (cases "old_part \<noteq> [] \<and> new_part = []")
      case True
      with not_changed show ?thesis by simp
    next
      case False
      show ?thesis
      proof (cases "old_part = [] \<and> new_part \<noteq> []")
        case True
        with not_changed not_same False assms(1)
        have "inv_sub_clamped new_qty new_part usr rows = Some rows'"
          by (simp add: adjust_inventory_def)
        from inv_sub_clamped_nonneg [OF this assms(2,3,4)] show ?thesis .
      next
        case no: False
        with not_changed not_same False have "old_part = []" and "new_part = []"
          by auto
        with assms(1) have "rows' = rows"
          by (simp add: adjust_inventory_def)
        with assms(3,4) show ?thesis by simp
      qed
    qed
  qed
qed

text \<open>\<open>update\<close> keeps a non-negative quantity non-negative when the quantity stored with
  the activity is itself non-negative.\<close>

lemma update_keeps_quantity_nonneg:
  assumes "ServiceActivity_update self d = Returns d'"
    and "select_by_id (sa_id self) d = Some old_row" and "0 \<le> sa_quantity old_row"
    and "i < length (inventory_items d)"
    and "inv_quantity (inventory_items d ! i) = Some q" and "0 \<le> q"
  shows "\<exists>q'. inv_quantity (inventory_items d' ! i) = Some q' \<and> 0 \<le> q'"
proof -
  from assms(1,2) obtain rows where
    a: "adjust_inventory (safe_str (PStr (sa_part_replaced old_row)))
          (sa_quantity old_row) (safe_str (PStr (sa_part_replaced self)))
          (sa_quantity self) (safe_str (PStr (sa_user self))) (inventory_items d) = Some rows"
    and r: "inventory_items d' = rows"
    by (auto simp: ServiceActivity_update_def Let_def safe_int_def
             split: if_splits option.splits)
  from adjust_inventory_nonneg [OF a assms(4,5,6,3)] r show ?thesis by simp
qed

text \<open>
  C2. Every ServiceActivity operation that adjusts inventory leaves a non-negative
  quantity non-negative.  The code does not: the form passes the typed quantity through
  unchecked, \<open>create\<close> stores \<open>-5\<close> with the activity, and the restock of \<open>update\<close> (part
  removed or changed) adds the stored quantity without a clamp.  Here a row at quantity 0
  ends at \<open>-5\<close>.
\<close>

theorem update_restock_negative:
  "ServiceActivity_create (sa_data ''X1'' (PStr ''-5'') ''u'')
       (mk_db [] [mk_inv 1 ''X1'' (Some 0) ''u''])
     = Inr (mk_db [mk_sa (Some 1) ''X1'' (- 5) ''u''] [mk_inv 1 ''X1'' (Some 0) ''u''])
   \<and> ServiceActivity_update (mk_sa (Some 1) [] 0 ''u'')
        (mk_db [mk_sa (Some 1) ''X1'' (- 5) ''u''] [mk_inv 1 ''X1'' (Some 0) ''u''])
     = Returns (mk_db [mk_sa (Some 1) [] 0 ''u''] [mk_inv 1 ''X1'' (Some (- 5)) ''u''])"
  by (simp add: ServiceActivity_create_def ServiceActivity_update_def sa_data_def mk_db_def
      mk_sa_def mk_inv_def dict_get_def safe_str_def safe_int_def py_strip_def is_space_def
      int_of_str_def int_strip_def is_int_space_def int_max_str_digits_def
      parse_unsigned_def is_digit_def digit_val_def py_or_def next_rowid_def
      inv_match_def inv_set_quantity_def Let_def select_by_id_def adjust_inventory_def
      inv_add_def inv_sub_clamped_def in_int64_def)

subsection \<open>Create, then delete\<close>

text \<open>For the user \<open>default_user\<close> the round trip restores the quantity.\<close>

lemma round_trip_default_user:
  "ServiceActivity_create (sa_data ''X1'' (PInt 3) ''default_user'')
       (mk_db [] [mk_inv 1 ''X1'' (Some 10) ''default_user''])
     = Inr (mk_db [mk_sa (Some 1) ''X1'' 3 ''default_user'']
              [mk_inv 1 ''X1'' (Some 7) ''default_user''])
   \<and> ServiceActivityPage_do_delete True (mk_sa (Some 1) ''X1'' 3 ''default_user'')
        (mk_db [mk_sa (Some 1) ''X1'' 3 ''default_user'']
           [mk_inv 1 ''X1'' (Some 7) ''default_user''])
     = Returns ((mk_db [] [mk_inv 1 ''X1'' (Some 10) ''default_user''])
                  \<lparr>service_activity_seq := 1\<rparr>)"
  by (simp add: ServiceActivity_create_def sa_data_def mk_db_def mk_sa_def mk_inv_def
      dict_get_def safe_str_def safe_int_def py_strip_def is_space_def py_or_def
      next_rowid_def inv_match_def inv_set_quantity_def Let_def
      ServiceActivityPage_do_delete_def InventoryItem_add_quantity_def
      ServiceActivity_delete_def inv_add_def in_int64_def)

text \<open>
  C3. With an inventory row (part X1, quantity 10) and a ServiceActivity created for the
  same user with part X1 and quantity 3, creating leaves quantity 7 and deleting restores
  10.  For the user \<open>alice\<close> the code does the first and not the second: \<open>_do_delete\<close>
  restocks the row of \<open>default_user\<close>, and the row of \<open>alice\<close> stays at 7.
\<close>

theorem delete_other_user_not_restored:
  "ServiceActivity_create (sa_data ''X1'' (PInt 3) ''alice'')
       (mk_db [] [mk_inv 1 ''X1'' (Some 10) ''alice''])
     = Inr (mk_db [mk_sa (Some 1) ''X1'' 3 ''alice''] [mk_inv 1 ''X1'' (Some 7) ''alice''])
   \<and> get_by_id (Some 1)
       (mk_db [mk_sa (Some 1) ''X1'' 3 ''alice''] [mk_inv 1 ''X1'' (Some 7) ''alice''])
     = Some (mk_sa (Some 1) ''X1'' 3 ''alice'')
   \<and> ServiceActivityPage_do_delete True (mk_sa (Some 1) ''X1'' 3 ''alice'')
        (mk_db [mk_sa (Some 1) ''X1'' 3 ''alice''] [mk_inv 1 ''X1'' (Some 7) ''alice''])
     = Returns ((mk_db [] [mk_inv 1 ''X1'' (Some 7) ''alice''])\<lparr>service_activity_seq := 1\<rparr>)"
  by (simp add: ServiceActivity_create_def sa_data_def mk_db_def mk_sa_def mk_inv_def
      dict_get_def safe_str_def safe_int_def py_strip_def is_space_def py_or_def
      next_rowid_def inv_match_def inv_set_quantity_def Let_def select_by_id_def
      get_by_id_def from_row_def ServiceActivityPage_do_delete_def
      InventoryItem_add_quantity_def ServiceActivity_delete_def inv_add_def in_int64_def)

subsection \<open>Authentication\<close>

text \<open>\<open>login_user\<close> never assigns the global that \<open>get_current_user\<close> reads.\<close>

lemma login_keeps_current_user:
  "login_user ph username password (d, g) = (b, d', g') \<Longrightarrow> current_user g' = current_user g"
  by (auto simp: login_user_def set_current_user_def Let_def
           split: option.splits sum.splits if_splits bool.splits)

text \<open>
  C1. After a successful \<open>login_user(username, password)\<close> the authenticated username is
  stored in the session variable, so that \<open>get_current_user()\<close> returns it rather than
  \<open>default_user\<close>.  The code does not: the login of \<open>alice\<close> succeeds and binds
  \<open>_current_user\<close>, while \<open>get_current_user\<close> reads \<open>current_user\<close>, still \<open>None\<close>, and
  answers \<open>default_user\<close>.
\<close>

theorem login_does_not_set_session:
  "login_user ph_example ''alice'' ''pw'' (db_alice, initial_globals)
     = (True, db_alice, initial_globals\<lparr>x_current_user := Some ''alice''\<rparr>)
   \<and> get_current_user (initial_globals\<lparr>x_current_user := Some ''alice''\<rparr>) = ''default_user''"
  by (simp add: login_user_def select_user_def db_alice_def ph_example_def
      verify_password_argon2_def upgrade_hash_def set_current_user_def get_current_user_def
      initial_globals_def)

text \<open>
  C7. For every username that already exists in table \<open>users\<close>, \<open>register_user\<close> returns
  \<open>False\<close> and leaves the table (the whole database) unchanged: no row is modified and
  none is inserted.
\<close>

theorem register_existing_username:
  assumes "username \<in> u_username ` set (users d)"
  shows "register_user ph username email password d = Inr (False, d)"
proof -
  from assms obtain r where "r \<in> set (users d)" "u_username r = username"
    by auto
  then have "find (\<lambda>r. u_username r = username) (users d) \<noteq> None"
    by (auto simp: find_None_iff)
  then show ?thesis
    by (auto simp: register_user_def select_user_def)
qed

theorem register_existing_username_witness:
  "''alice'' \<in> u_username ` set (users db_alice)
   \<and> register_user ph_example ''alice'' ''other@example.org'' ''secret'' db_alice
       = Inr (False, db_alice)"
proof -
  have h: "''alice'' \<in> u_username ` set (users db_alice)"
    by (simp add: db_alice_def)
  show ?thesis using h register_existing_username [OF h] by simp
qed




text \<open>A login against a stored hash that the library cannot encode is denied, not
  raised.\<close>

lemma login_non_ascii_hash:
  "login_user ph_example ''zoe'' ''pw''
     (db_alice\<lparr>users := [\<lparr> u_id = 1, u_username = ''zoe'', u_email = [],
                              u_password_hash = [CHR 0xE9] \<rparr>]\<rparr>, initial_globals)
   = (False, db_alice\<lparr>users := [\<lparr> u_id = 1, u_username = ''zoe'', u_email = [],
                              u_password_hash = [CHR 0xE9] \<rparr>]\<rparr>, initial_globals)"
  by (simp add: login_user_def select_user_def verify_password_argon2_def ph_example_def)

subsection \<open>The allow-list filter proxy\<close>

lemma passes_filters_iff:
  "passes_filters cols it fs \<longleftrightarrow>
     (\<forall>(c, a) \<in> set fs. c \<in> set cols \<and> a \<noteq> {} \<longrightarrow> sval it c \<in> a)"
  by (induction cols it fs rule: passes_filters.induct) auto

lemma visible_rows_model_A: "visible_rows proxy_model_A five_rows = [0, 2, 4]"
  by (simp add: visible_rows_def filterAcceptsRow_def proxy_model_A_def five_rows_def
      model_item_def sval_def upt_rec)

lemma visible_rows_cleared:
  "visible_rows (set_filters [] proxy_model_A) five_rows = [0, 1, 2, 3, 4]"
  by (simp add: visible_rows_def filterAcceptsRow_def proxy_model_A_def five_rows_def
      set_filters_def upt_rec)

text \<open>
  C5, as stated: a row is accepted if and only if, for every filtered column with a
  non-empty allow-set, the stringified value of the column's attribute is in the
  allow-set.  It fails for a filter key that is not one of the proxy's columns: the code
  skips such a key, and the row is accepted although the value is not in the allow-set.
\<close>

theorem filter_unknown_key_counterexample:
  "filterAcceptsRow proxy_unknown_key (Some [model_item ''B'']) 0
   \<and> (''colour'', {''A''}) \<in> set (filters proxy_unknown_key)
   \<and> {''A''} \<noteq> ({} :: string set)
   \<and> sval (model_item ''B'') ''colour'' \<notin> {''A''}"
  by (simp add: filterAcceptsRow_def proxy_unknown_key_def model_item_def sval_def)

text \<open>
  C5, amended: a row of the source model is accepted if and only if, for every filter
  entry whose key is one of the proxy's columns and whose allow-set is non-empty, the
  stringified value of that attribute of the row object is in the allow-set; an empty
  allow-set, or a key that is not a column of the proxy, imposes no constraint.  With
  filters \<open>{"model": {"A"}}\<close>, \<open>model\<close> being a column of the proxy, over five rows of
  which three have model \<open>A\<close> and two have model \<open>B\<close>, exactly three rows are accepted;
  with the filters cleared all five are.
\<close>

theorem filter_accepts_row_iff:
  "(0 \<le> source_row \<and> source_row < int (length items) \<longrightarrow>
      (filterAcceptsRow p (Some items) source_row \<longleftrightarrow>
         (\<forall>(c, a) \<in> set (filters p).
             c \<in> set (columns p) \<and> a \<noteq> {} \<longrightarrow> sval (items ! nat source_row) c \<in> a)))
   \<and> length (visible_rows proxy_model_A five_rows) = 3
   \<and> visible_rows (set_filters [] proxy_model_A) five_rows = [0, 1, 2, 3, 4]"
  by (simp add: filterAcceptsRow_def passes_filters_iff visible_rows_model_A
      visible_rows_cleared)

theorem filter_accepts_row_iff_witness:
  "(0::int) \<le> 1 \<and> 1 < int (length five_rows)
   \<and> \<not> filterAcceptsRow proxy_model_A (Some five_rows) 1
   \<and> (''model'', {''A''}) \<in> set (filters proxy_model_A)
   \<and> ''model'' \<in> set (columns proxy_model_A)
   \<and> sval (five_rows ! nat 1) ''model'' \<notin> {''A''}"
proof -
  have h: "(0::int) \<le> 1 \<and> 1 < int (length five_rows)"
    by (simp add: five_rows_def)
  have s: "sval (five_rows ! nat 1) ''model'' = ''B''"
    by (simp add: five_rows_def model_item_def sval_def)
  show ?thesis
    using h s filter_accepts_row_iff [of 1 five_rows proxy_model_A]
    by (simp add: proxy_model_A_def)
qed

subsection \<open>The inventory importer\<close>

text \<open>
  C6. For every workbook whose header row lacks at least one required header, the
  inventory importer returns the count 0 and exactly the list of the missing required
  headers, and the database is as it was: no record is written before the header check
  passes.
\<close>

theorem import_missing_headers:
  assumes "wb sheet_name = Some ws"
    and "\<exists>h \<in> set REQUIRED_HEADERS. h \<notin> set (read_headers (header_row ws))"
  shows "import_inventory_from_excel wb sheet_name usr d =
           (Inr (0, filter (\<lambda>h. h \<notin> set (read_headers (header_row ws))) REQUIRED_HEADERS), d)"
proof -
  from assms(2)
  have "filter (\<lambda>h. h \<notin> set (read_headers (header_row ws))) REQUIRED_HEADERS \<noteq> []"
    by (simp add: filter_empty_conv)
  with assms(1) show ?thesis
    by (simp add: import_inventory_from_excel_def Let_def)
qed

lemma read_headers_short:
  "read_headers (header_row ws_short) = [''part number'', ''qty'', ''model'', []]"
  by code_simp

theorem import_missing_headers_witness:
  "wb_short ''Sheet1'' = Some ws_short
   \<and> (\<exists>h \<in> set REQUIRED_HEADERS. h \<notin> set (read_headers (header_row ws_short)))
   \<and> import_inventory_from_excel wb_short ''Sheet1'' (PStr ''bob'') (mk_db [] []) =
       (Inr (0, [''part location'', ''part description'',
                 ''quarterly inventory verification date'',
                 ''days since last verification'', ''notes'', ''today's date'']),
        mk_db [] [])"
proof -
  have h1: "wb_short ''Sheet1'' = Some ws_short"
    by (simp add: wb_short_def)
  have h2: "\<exists>h \<in> set REQUIRED_HEADERS. h \<notin> set (read_headers (header_row ws_short))"
    by (simp add: read_headers_short REQUIRED_HEADERS_def)
  show ?thesis
    using h1 h2
      import_missing_headers [of wb_short "''Sheet1''" ws_short "PStr ''bob''" "mk_db [] []"]
    by (simp add: read_headers_short REQUIRED_HEADERS_def)
qed

subsection \<open>Durations\<close>

lemma try_patterns_None:
  "try_patterns ts ps = None \<longleftrightarrow> (\<forall>p \<in> set ps. strptime ts p = None)"
  by (induction ps) (auto split: option.splits)

lemma compute_duration_example:
  "compute_duration (PStr ''2024-01-01'') (PStr ''9:00 AM'') (PStr ''2024-01-01'')
     (PStr ''5:30 PM'') = ''8hrs, 30mins''"
  by code_simp

text \<open>
  C4. \<open>compute_duration("2024-01-01", "9:00 AM", "2024-01-01", "5:30 PM")\<close> returns
  \<open>8hrs, 30mins\<close>; and whenever the date and time strings of the arrival, or those of the
  departure, parse under none of the three accepted patterns (12-hour with AM/PM, 24-hour
  HH:MM, 24-hour HH:MM:SS), \<open>compute_duration\<close> returns \<open>0hr, 0min\<close>.
\<close>

theorem compute_duration_spec:
  "compute_duration (PStr ''2024-01-01'') (PStr ''9:00 AM'') (PStr ''2024-01-01'')
     (PStr ''5:30 PM'') = ''8hrs, 30mins''
   \<and> ((\<forall>p \<in> set patterns. strptime (timestamp (PStr arr_date) (PStr arr_time)) p = None)
        \<or> (\<forall>p \<in> set patterns. strptime (timestamp (PStr dep_date) (PStr dep_time)) p = None)
      \<longrightarrow> compute_duration (PStr arr_date) (PStr arr_time) (PStr dep_date) (PStr dep_time)
            = ''0hr, 0min'')"
proof -
  have "compute_duration (PStr arr_date) (PStr arr_time) (PStr dep_date) (PStr dep_time)
          = ''0hr, 0min''"
    if "parse (PStr arr_date) (PStr arr_time) = None
        \<or> parse (PStr dep_date) (PStr dep_time) = None"
    using that by (auto simp: compute_duration_def split: option.splits)
  then show ?thesis
    by (simp add: compute_duration_example parse_def try_patterns_None)
qed

theorem compute_duration_spec_witness:
  "try_patterns (timestamp (PStr ''2024-01-01'') (PStr ''9 o'clock'')) patterns = None
   \<and> compute_duration (PStr ''2024-01-01'') (PStr ''9 o'clock'') (PStr ''2024-01-01'')
        (PStr ''5:30 PM'') = ''0hr, 0min''"
proof -
  have n: "try_patterns (timestamp (PStr ''2024-01-01'') (PStr ''9 o'clock'')) patterns = None"
    by code_simp
  then have h: "\<forall>p \<in> set patterns.
             strptime (timestamp (PStr ''2024-01-01'') (PStr ''9 o'clock'')) p = None"
    by (simp only: try_patterns_None)
  show ?thesis
    using n h compute_duration_spec [of "''2024-01-01''" "''9 o'clock''" "''2024-01-01''"
        "''5:30 PM''"]
    by blast
qed

end
